theory Spec2Isabelle
  imports Main "HOL-Library.Word"
begin

section \<open>The TAP state engine (jtagtap.c)\<close>

subsection \<open>Data\<close>

text \<open>
  The enumeration \<open>jtagTAP_TAPState\<close>: the sixteen states of the IEEE 1149.1 TAP controller
  and the sentinel \<open>JTAGTAP_STATE_UNKNOWN\<close>. The constructors are the enumerators that index
  the table \<open>jtagTAP_StateNames\<close>.
\<close>

datatype jtagTAP_TAPState =
    JTAGTAP_STATE_UNKNOWN
  | JTAGTAP_STATE_RESET
  | JTAGTAP_STATE_IDLE
  | JTAGTAP_STATE_DR_SCAN
  | JTAGTAP_STATE_DR_CAPTURE
  | JTAGTAP_STATE_DR_SHIFT
  | JTAGTAP_STATE_DR_EXIT1
  | JTAGTAP_STATE_DR_PAUSE
  | JTAGTAP_STATE_DR_EXIT2
  | JTAGTAP_STATE_DR_UPDATE
  | JTAGTAP_STATE_IR_SCAN
  | JTAGTAP_STATE_IR_CAPTURE
  | JTAGTAP_STATE_IR_SHIFT
  | JTAGTAP_STATE_IR_EXIT1
  | JTAGTAP_STATE_IR_PAUSE
  | JTAGTAP_STATE_IR_EXIT2
  | JTAGTAP_STATE_IR_UPDATE

text \<open>
  Modelled from the spec: the header jtagtap.h, which gives the enumerators their integer
  values, is not among the sources. The spec lists the states in the order Unknown, Reset,
  Idle, DR-Scan, DR-Capture, DR-Shift, DR-Exit1, DR-Pause, DR-Exit2, DR-Update, IR-Scan,
  IR-Capture, IR-Shift, IR-Exit1, IR-Pause, IR-Exit2, IR-Update (the order of the initialisers
  of \<open>jtagTAP_StateNames\<close> too), and reads the two range tests of the engine as
  "Capture..Update". \<open>state_num\<close> numbers the enumerators in that order; the C comparisons
  \<open>>=\<close> and \<open><=\<close> on states are comparisons of these numbers.
\<close>

fun state_num :: "jtagTAP_TAPState \<Rightarrow> nat" where
  "state_num JTAGTAP_STATE_UNKNOWN = 0"
| "state_num JTAGTAP_STATE_RESET = 1"
| "state_num JTAGTAP_STATE_IDLE = 2"
| "state_num JTAGTAP_STATE_DR_SCAN = 3"
| "state_num JTAGTAP_STATE_DR_CAPTURE = 4"
| "state_num JTAGTAP_STATE_DR_SHIFT = 5"
| "state_num JTAGTAP_STATE_DR_EXIT1 = 6"
| "state_num JTAGTAP_STATE_DR_PAUSE = 7"
| "state_num JTAGTAP_STATE_DR_EXIT2 = 8"
| "state_num JTAGTAP_STATE_DR_UPDATE = 9"
| "state_num JTAGTAP_STATE_IR_SCAN = 10"
| "state_num JTAGTAP_STATE_IR_CAPTURE = 11"
| "state_num JTAGTAP_STATE_IR_SHIFT = 12"
| "state_num JTAGTAP_STATE_IR_EXIT1 = 13"
| "state_num JTAGTAP_STATE_IR_PAUSE = 14"
| "state_num JTAGTAP_STATE_IR_EXIT2 = 15"
| "state_num JTAGTAP_STATE_IR_UPDATE = 16"

text \<open>The five logical JTAG signals (the enumeration of jtag.h that the engine names).\<close>

datatype jtag_Signal =
    JTAG_SIGNAL_TCK
  | JTAG_SIGNAL_TMS
  | JTAG_SIGNAL_TDI
  | JTAG_SIGNAL_TDO
  | JTAG_SIGNAL_TRST

text \<open>
  The engine acts on the hardware only through \<open>jtag_Set\<close>, \<open>jtag_Clock\<close> and the
  busy-wait loop. Each call is recorded, in program order, as one entry of a log:
  \<open>Set sig level\<close> for \<open>jtag_Set(sig, level)\<close>, \<open>Clock\<close> for \<open>jtag_Clock()\<close> and
  \<open>Spin n\<close> for a busy-wait that executed \<open>n\<close> \<open>nop\<close> instructions.
\<close>

datatype hw_call = Set jtag_Signal bool | Clock | Spin nat

text \<open>
  The state the engine runs in: the static variable \<open>TAPState\<close>, the answer of
  \<open>jtag_IsAllocated(JTAG_SIGNAL_TRST)\<close> (a parameter of the model: the signal layer owns it
  and neither \<open>jtag_Set\<close> nor \<open>jtag_Clock\<close> allocates or releases a signal), and the log
  of hardware calls made so far.
\<close>

record tap_machine =
  TAPState :: jtagTAP_TAPState
  trst_allocated :: bool
  calls :: "hw_call list"

subsection \<open>The collaborators, as log entries\<close>

text \<open>
  The engine asks \<open>jtag_IsAllocated\<close> about \<open>JTAG_SIGNAL_TRST\<close> only; the model answers for
  that signal from the field \<open>trst_allocated\<close>.
\<close>

definition jtag_IsAllocated :: "jtag_Signal \<Rightarrow> tap_machine \<Rightarrow> bool" where
  "jtag_IsAllocated sig m = (sig = JTAG_SIGNAL_TRST \<and> trst_allocated m)"

definition jtag_Set :: "jtag_Signal \<Rightarrow> bool \<Rightarrow> tap_machine \<Rightarrow> tap_machine" where
  "jtag_Set sig level m = m\<lparr>calls := calls m @ [Set sig level]\<rparr>"

definition jtag_Clock :: "tap_machine \<Rightarrow> tap_machine" where
  "jtag_Clock m = m\<lparr>calls := calls m @ [Clock]\<rparr>"

definition delay_count :: nat where
  "delay_count = 20000"

text \<open>
  The loop \<open>while(++count < delay_count) { nop }\<close>: \<open>count\<close> is incremented, then tested;
  \<open>nops\<close> counts the executions of the body. (\<open>delay_count\<close> is far below \<open>2^32\<close>, so the
  unsigned counter never wraps.)
\<close>

function delay_loop :: "nat \<Rightarrow> nat \<Rightarrow> nat" where
  "delay_loop count nops =
     (if count + 1 < delay_count then delay_loop (count + 1) (nops + 1) else nops)"
  by pat_completeness auto
termination
  by (relation "measure (\<lambda>(count, nops). delay_count - count)") auto

declare delay_loop.simps [simp del]

definition delay :: "tap_machine \<Rightarrow> tap_machine" where
  "delay m = m\<lparr>calls := calls m @ [Spin (delay_loop 0 0)]\<rparr>"

text \<open>
  The block "take the easy way to reset", which the source has twice (lines 65-76 and
  89-100) with the same text: TMS high, TRST low, the busy-wait, TRST high.
\<close>

definition trst_reset :: "tap_machine \<Rightarrow> tap_machine" where
  "trst_reset m =
     (let m = jtag_Set JTAG_SIGNAL_TMS True m;
          m = jtag_Set JTAG_SIGNAL_TRST False m;
          m = delay m
      in jtag_Set JTAG_SIGNAL_TRST True m)"

subsection \<open>jtagTAP_Init, jtagTAP_GetState\<close>

definition jtagTAP_Init :: "tap_machine \<Rightarrow> tap_machine" where
  "jtagTAP_Init m = m\<lparr>TAPState := JTAGTAP_STATE_UNKNOWN\<rparr>"

definition jtagTAP_GetState :: "tap_machine \<Rightarrow> jtagTAP_TAPState" where
  "jtagTAP_GetState m = TAPState m"

subsection \<open>jtagTAP_SetState\<close>

text \<open>
  The body of the \<open>while\<close> loop: the \<open>switch\<close> on \<open>TAPState\<close>, one case per state, each
  statement in the order of the source.
\<close>

definition tap_step :: "jtagTAP_TAPState \<Rightarrow> tap_machine \<Rightarrow> tap_machine" where
  "tap_step target m =
    (case TAPState m of
       JTAGTAP_STATE_UNKNOWN \<Rightarrow>
         (let m = (if jtag_IsAllocated JTAG_SIGNAL_TRST m then trst_reset m
                   else
                     (let m = jtag_Set JTAG_SIGNAL_TMS True m;
                          m = jtag_Clock m;
                          m = jtag_Clock m;
                          m = jtag_Clock m;
                          m = jtag_Clock m
                      in jtag_Clock m))
          in m\<lparr>TAPState := JTAGTAP_STATE_RESET\<rparr>)
     | JTAGTAP_STATE_RESET \<Rightarrow>
         (let m = jtag_Set JTAG_SIGNAL_TMS False m;
              m = jtag_Clock m
          in m\<lparr>TAPState := JTAGTAP_STATE_IDLE\<rparr>)
     | JTAGTAP_STATE_IDLE \<Rightarrow>
         (let m = jtag_Set JTAG_SIGNAL_TMS True m;
              m = jtag_Clock m
          in m\<lparr>TAPState := JTAGTAP_STATE_DR_SCAN\<rparr>)
     | JTAGTAP_STATE_DR_SCAN \<Rightarrow>
         (let m = (if state_num target \<ge> state_num JTAGTAP_STATE_DR_CAPTURE
                      \<and> state_num target \<le> state_num JTAGTAP_STATE_DR_UPDATE
                   then (jtag_Set JTAG_SIGNAL_TMS False m)\<lparr>TAPState := JTAGTAP_STATE_DR_CAPTURE\<rparr>
                   else (jtag_Set JTAG_SIGNAL_TMS True m)\<lparr>TAPState := JTAGTAP_STATE_IR_SCAN\<rparr>)
          in jtag_Clock m)
     | JTAGTAP_STATE_DR_CAPTURE \<Rightarrow>
         (let m = (if target = JTAGTAP_STATE_DR_SHIFT
                   then (jtag_Set JTAG_SIGNAL_TMS False m)\<lparr>TAPState := JTAGTAP_STATE_DR_SHIFT\<rparr>
                   else (jtag_Set JTAG_SIGNAL_TMS True m)\<lparr>TAPState := JTAGTAP_STATE_DR_EXIT1\<rparr>)
          in jtag_Clock m)
     | JTAGTAP_STATE_DR_SHIFT \<Rightarrow>
         (let m = jtag_Set JTAG_SIGNAL_TMS True m;
              m = jtag_Clock m
          in m\<lparr>TAPState := JTAGTAP_STATE_DR_EXIT1\<rparr>)
     | JTAGTAP_STATE_DR_EXIT1 \<Rightarrow>
         (let m = (if target = JTAGTAP_STATE_DR_PAUSE \<or> target = JTAGTAP_STATE_DR_EXIT2
                      \<or> target = JTAGTAP_STATE_DR_SHIFT
                   then (jtag_Set JTAG_SIGNAL_TMS False m)\<lparr>TAPState := JTAGTAP_STATE_DR_PAUSE\<rparr>
                   else (jtag_Set JTAG_SIGNAL_TMS True m)\<lparr>TAPState := JTAGTAP_STATE_DR_UPDATE\<rparr>)
          in jtag_Clock m)
     | JTAGTAP_STATE_DR_PAUSE \<Rightarrow>
         (let m = jtag_Set JTAG_SIGNAL_TMS True m;
              m = jtag_Clock m
          in m\<lparr>TAPState := JTAGTAP_STATE_DR_EXIT2\<rparr>)
     | JTAGTAP_STATE_DR_EXIT2 \<Rightarrow>
         (let m = (if target = JTAGTAP_STATE_DR_PAUSE \<or> target = JTAGTAP_STATE_DR_EXIT1
                      \<or> target = JTAGTAP_STATE_DR_SHIFT
                   then (jtag_Set JTAG_SIGNAL_TMS False m)\<lparr>TAPState := JTAGTAP_STATE_DR_SHIFT\<rparr>
                   else (jtag_Set JTAG_SIGNAL_TMS True m)\<lparr>TAPState := JTAGTAP_STATE_DR_UPDATE\<rparr>)
          in jtag_Clock m)
     | JTAGTAP_STATE_DR_UPDATE \<Rightarrow>
         (let m = (if target = JTAGTAP_STATE_IDLE
                   then (jtag_Set JTAG_SIGNAL_TMS False m)\<lparr>TAPState := JTAGTAP_STATE_IDLE\<rparr>
                   else (jtag_Set JTAG_SIGNAL_TMS True m)\<lparr>TAPState := JTAGTAP_STATE_DR_SCAN\<rparr>)
          in jtag_Clock m)
     | JTAGTAP_STATE_IR_SCAN \<Rightarrow>
         (let m = (if state_num target \<ge> state_num JTAGTAP_STATE_IR_CAPTURE
                      \<and> state_num target \<le> state_num JTAGTAP_STATE_IR_UPDATE
                   then (jtag_Set JTAG_SIGNAL_TMS False m)\<lparr>TAPState := JTAGTAP_STATE_IR_CAPTURE\<rparr>
                   else (jtag_Set JTAG_SIGNAL_TMS True m)\<lparr>TAPState := JTAGTAP_STATE_RESET\<rparr>)
          in jtag_Clock m)
     | JTAGTAP_STATE_IR_CAPTURE \<Rightarrow>
         (let m = (if target = JTAGTAP_STATE_IR_SHIFT
                   then (jtag_Set JTAG_SIGNAL_TMS False m)\<lparr>TAPState := JTAGTAP_STATE_IR_SHIFT\<rparr>
                   else (jtag_Set JTAG_SIGNAL_TMS True m)\<lparr>TAPState := JTAGTAP_STATE_IR_EXIT1\<rparr>)
          in jtag_Clock m)
     | JTAGTAP_STATE_IR_SHIFT \<Rightarrow>
         (let m = jtag_Set JTAG_SIGNAL_TMS True m;
              m = jtag_Clock m
          in m\<lparr>TAPState := JTAGTAP_STATE_IR_EXIT1\<rparr>)
     | JTAGTAP_STATE_IR_EXIT1 \<Rightarrow>
         (let m = (if target = JTAGTAP_STATE_IR_PAUSE \<or> target = JTAGTAP_STATE_IR_EXIT2
                      \<or> target = JTAGTAP_STATE_IR_SHIFT
                   then (jtag_Set JTAG_SIGNAL_TMS False m)\<lparr>TAPState := JTAGTAP_STATE_IR_PAUSE\<rparr>
                   else (jtag_Set JTAG_SIGNAL_TMS True m)\<lparr>TAPState := JTAGTAP_STATE_IR_UPDATE\<rparr>)
          in jtag_Clock m)
     | JTAGTAP_STATE_IR_PAUSE \<Rightarrow>
         (let m = jtag_Set JTAG_SIGNAL_TMS True m;
              m = jtag_Clock m
          in m\<lparr>TAPState := JTAGTAP_STATE_IR_EXIT2\<rparr>)
     | JTAGTAP_STATE_IR_EXIT2 \<Rightarrow>
         (let m = (if target = JTAGTAP_STATE_IR_PAUSE \<or> target = JTAGTAP_STATE_IR_EXIT1
                      \<or> target = JTAGTAP_STATE_IR_SHIFT
                   then (jtag_Set JTAG_SIGNAL_TMS False m)\<lparr>TAPState := JTAGTAP_STATE_IR_SHIFT\<rparr>
                   else (jtag_Set JTAG_SIGNAL_TMS True m)\<lparr>TAPState := JTAGTAP_STATE_IR_UPDATE\<rparr>)
          in jtag_Clock m)
     | JTAGTAP_STATE_IR_UPDATE \<Rightarrow>
         (let m = (if target = JTAGTAP_STATE_IDLE
                   then (jtag_Set JTAG_SIGNAL_TMS False m)\<lparr>TAPState := JTAGTAP_STATE_IDLE\<rparr>
                   else (jtag_Set JTAG_SIGNAL_TMS True m)\<lparr>TAPState := JTAGTAP_STATE_DR_SCAN\<rparr>)
          in jtag_Clock m))"

text \<open>
  The loop \<open>while(TAPState != target)\<close>. Nothing in its text bounds the number of
  iterations, so it is a partial function: \<open>None\<close> stands for a loop that never exits.
\<close>

partial_function (option) tap_loop :: "jtagTAP_TAPState \<Rightarrow> tap_machine \<Rightarrow> tap_machine option" where
  "tap_loop target m =
     (if TAPState m \<noteq> target then tap_loop target (tap_step target m) else Some m)"

text \<open>
  The statement before the loop (lines 63-78): with target Reset and TRST allocated, the
  hardware reset, after which \<open>TAPState\<close> is Reset.
\<close>

definition reset_shortcut :: "jtagTAP_TAPState \<Rightarrow> tap_machine \<Rightarrow> tap_machine" where
  "reset_shortcut target m =
     (if target = JTAGTAP_STATE_RESET \<and> jtag_IsAllocated JTAG_SIGNAL_TRST m
      then (trst_reset m)\<lparr>TAPState := JTAGTAP_STATE_RESET\<rparr>
      else m)"

definition jtagTAP_SetState :: "jtagTAP_TAPState \<Rightarrow> tap_machine \<Rightarrow> tap_machine option" where
  "jtagTAP_SetState target m =
     (if target \<noteq> JTAGTAP_STATE_UNKNOWN then
        (let m = reset_shortcut target m
         in tap_loop target m)
      else Some (m\<lparr>TAPState := JTAGTAP_STATE_UNKNOWN\<rparr>))"

text \<open>The number of \<open>jtag_Clock()\<close> calls in a log.\<close>

definition clock_pulses :: "hw_call list \<Rightarrow> nat" where
  "clock_pulses cs = length (filter (\<lambda>c. c = Clock) cs)"

subsection \<open>Auxiliary definitions for the proofs\<close>

text \<open>The calls of the hardware reset, as they appear in the log.\<close>

definition trst_pulse :: "hw_call list" where
  "trst_pulse = [Set JTAG_SIGNAL_TMS True, Set JTAG_SIGNAL_TRST False, Spin 19999,
                 Set JTAG_SIGNAL_TRST True]"

text \<open>
  The state one iteration of the loop leaves, read off \<open>tap_step\<close>: it depends on the
  current state and the target only.
\<close>

definition next_state :: "jtagTAP_TAPState \<Rightarrow> jtagTAP_TAPState \<Rightarrow> jtagTAP_TAPState" where
  "next_state target s =
     TAPState (tap_step target \<lparr>TAPState = s, trst_allocated = False, calls = []\<rparr>)"

text \<open>
  The number of iterations the loop needs from state \<open>s\<close>, searched up to a bound:
  \<open>None\<close> when the target is not met within \<open>fuel\<close> iterations.
\<close>

fun hops :: "nat \<Rightarrow> jtagTAP_TAPState \<Rightarrow> jtagTAP_TAPState \<Rightarrow> nat option" where
  "hops 0 target s = (if s = target then Some 0 else None)"
| "hops (Suc fuel) target s =
     (if s = target then Some 0 else map_option Suc (hops fuel target (next_state target s)))"

text \<open>
  The transition table of the spec (section 4.2), column "Rule", written down from the
  spec's words to be compared with \<open>tap_step\<close>: for the current state and the target, the TMS
  level of the pulse and the next state. The row Unknown is not a single pulse and has no
  entry here.
\<close>

fun table_rule :: "jtagTAP_TAPState \<Rightarrow> jtagTAP_TAPState \<Rightarrow> (bool \<times> jtagTAP_TAPState) option" where
  "table_rule JTAGTAP_STATE_UNKNOWN target = None"
| "table_rule JTAGTAP_STATE_RESET target = Some (False, JTAGTAP_STATE_IDLE)"
| "table_rule JTAGTAP_STATE_IDLE target = Some (True, JTAGTAP_STATE_DR_SCAN)"
| "table_rule JTAGTAP_STATE_DR_SCAN target =
     (if target \<in> {JTAGTAP_STATE_DR_CAPTURE, JTAGTAP_STATE_DR_SHIFT, JTAGTAP_STATE_DR_EXIT1,
                    JTAGTAP_STATE_DR_PAUSE, JTAGTAP_STATE_DR_EXIT2, JTAGTAP_STATE_DR_UPDATE}
      then Some (False, JTAGTAP_STATE_DR_CAPTURE) else Some (True, JTAGTAP_STATE_IR_SCAN))"
| "table_rule JTAGTAP_STATE_DR_CAPTURE target =
     (if target = JTAGTAP_STATE_DR_SHIFT
      then Some (False, JTAGTAP_STATE_DR_SHIFT) else Some (True, JTAGTAP_STATE_DR_EXIT1))"
| "table_rule JTAGTAP_STATE_DR_SHIFT target = Some (True, JTAGTAP_STATE_DR_EXIT1)"
| "table_rule JTAGTAP_STATE_DR_EXIT1 target =
     (if target \<in> {JTAGTAP_STATE_DR_PAUSE, JTAGTAP_STATE_DR_EXIT2, JTAGTAP_STATE_DR_SHIFT}
      then Some (False, JTAGTAP_STATE_DR_PAUSE) else Some (True, JTAGTAP_STATE_DR_UPDATE))"
| "table_rule JTAGTAP_STATE_DR_PAUSE target = Some (True, JTAGTAP_STATE_DR_EXIT2)"
| "table_rule JTAGTAP_STATE_DR_EXIT2 target =
     (if target \<in> {JTAGTAP_STATE_DR_PAUSE, JTAGTAP_STATE_DR_EXIT1, JTAGTAP_STATE_DR_SHIFT}
      then Some (False, JTAGTAP_STATE_DR_SHIFT) else Some (True, JTAGTAP_STATE_DR_UPDATE))"
| "table_rule JTAGTAP_STATE_DR_UPDATE target =
     (if target = JTAGTAP_STATE_IDLE
      then Some (False, JTAGTAP_STATE_IDLE) else Some (True, JTAGTAP_STATE_DR_SCAN))"
| "table_rule JTAGTAP_STATE_IR_SCAN target =
     (if target \<in> {JTAGTAP_STATE_IR_CAPTURE, JTAGTAP_STATE_IR_SHIFT, JTAGTAP_STATE_IR_EXIT1,
                    JTAGTAP_STATE_IR_PAUSE, JTAGTAP_STATE_IR_EXIT2, JTAGTAP_STATE_IR_UPDATE}
      then Some (False, JTAGTAP_STATE_IR_CAPTURE) else Some (True, JTAGTAP_STATE_RESET))"
| "table_rule JTAGTAP_STATE_IR_CAPTURE target =
     (if target = JTAGTAP_STATE_IR_SHIFT
      then Some (False, JTAGTAP_STATE_IR_SHIFT) else Some (True, JTAGTAP_STATE_IR_EXIT1))"
| "table_rule JTAGTAP_STATE_IR_SHIFT target = Some (True, JTAGTAP_STATE_IR_EXIT1)"
| "table_rule JTAGTAP_STATE_IR_EXIT1 target =
     (if target \<in> {JTAGTAP_STATE_IR_PAUSE, JTAGTAP_STATE_IR_EXIT2, JTAGTAP_STATE_IR_SHIFT}
      then Some (False, JTAGTAP_STATE_IR_PAUSE) else Some (True, JTAGTAP_STATE_IR_UPDATE))"
| "table_rule JTAGTAP_STATE_IR_PAUSE target = Some (True, JTAGTAP_STATE_IR_EXIT2)"
| "table_rule JTAGTAP_STATE_IR_EXIT2 target =
     (if target \<in> {JTAGTAP_STATE_IR_PAUSE, JTAGTAP_STATE_IR_EXIT1, JTAGTAP_STATE_IR_SHIFT}
      then Some (False, JTAGTAP_STATE_IR_SHIFT) else Some (True, JTAGTAP_STATE_IR_UPDATE))"
| "table_rule JTAGTAP_STATE_IR_UPDATE target =
     (if target = JTAGTAP_STATE_IDLE
      then Some (False, JTAGTAP_STATE_IDLE) else Some (True, JTAGTAP_STATE_DR_SCAN))"


section \<open>The signal/pin layer (jtag.c)\<close>

text \<open>
  Modelled from the spec: the file jtag.c (the variables \<open>jtag_Signals\<close> and
  \<open>jtag_PinUsage\<close>, and the functions \<open>jtag_Init\<close> and \<open>jtag_Cfg\<close>) is not among the
  sources; only its test file tjtag.c is. The definitions of this section follow sections
  3, 4.1 and 6 of the spec. The hardware is the collaborator of section 6: the layer acts on
  it through the operations "set pin direction", "drive level" and "enable peripheral
  clock", and the model records each operation issued, in order, in a log; a call that adds
  nothing to the log has written no register.
\<close>

datatype pin_mode = Input | Output

datatype port_op = SetPinDirection nat pin_mode | DriveLevel nat bool | EnablePeripheralClock

text \<open>
  Modelled from the spec: PinAssignment ("a mapping from SignalId to an optional physical
  pin number", \<open>None\<close> being the sentinel "not allocated") and PinUsageSet ("a bitset of
  which physical pins are currently claimed"; tjtag.c keeps it in an \<open>unsigned int\<close>).
\<close>

record jtag_state =
  jtag_Signals :: "jtag_Signal \<Rightarrow> nat option"
  jtag_PinUsage :: "32 word"
  port_ops :: "port_op list"

text \<open>Modelled from the spec: the port has pins 0..15.\<close>

definition jtag_pin_count :: nat where
  "jtag_pin_count = 16"

definition all_signals :: "jtag_Signal list" where
  "all_signals = [JTAG_SIGNAL_TCK, JTAG_SIGNAL_TMS, JTAG_SIGNAL_TDI, JTAG_SIGNAL_TDO,
                  JTAG_SIGNAL_TRST]"

text \<open>
  Modelled from the spec: Initialize "resets PinUsageSet and PinAssignment to the default
  (TCK=pin0, TMS=pin1, TDI=pin2, TDO=pin3, all else unassigned); configures each pin's
  electrical mode: TCK/TMS/TDI [...] as push-pull digital outputs [...] driven low; TDO as
  a floating digital input", and enables the peripheral clock.
\<close>

definition jtag_Init :: "jtag_state \<Rightarrow> jtag_state" where
  "jtag_Init st =
     st\<lparr>jtag_PinUsage := 0x0F,
        jtag_Signals := (\<lambda>sig. None)(JTAG_SIGNAL_TCK := Some 0, JTAG_SIGNAL_TMS := Some 1,
                                     JTAG_SIGNAL_TDI := Some 2, JTAG_SIGNAL_TDO := Some 3),
        port_ops := port_ops st @
          [EnablePeripheralClock,
           SetPinDirection 0 Output, DriveLevel 0 False,
           SetPinDirection 1 Output, DriveLevel 1 False,
           SetPinDirection 2 Output, DriveLevel 2 False,
           SetPinDirection 3 Input]\<rparr>"

text \<open>
  Modelled from the spec: "if the signal currently has a pin, deconfigure it - drive it
  low, set it to input mode, clear its usage bit, clear the assignment."
\<close>

definition deconfigure :: "jtag_Signal \<Rightarrow> jtag_state \<Rightarrow> jtag_state" where
  "deconfigure sig st =
     (case jtag_Signals st sig of
        None \<Rightarrow> st
      | Some old \<Rightarrow>
          st\<lparr>port_ops := port_ops st @ [DriveLevel old False, SetPinDirection old Input],
             jtag_PinUsage := unset_bit old (jtag_PinUsage st),
             jtag_Signals := (jtag_Signals st)(sig := None)\<rparr>)"

text \<open>
  Modelled from the spec: "claim the new pin: mark it used, record the assignment, and
  configure its electrical direction - output (push-pull, low speed, no pull, driven low)
  for every signal except TDO, which remains a floating input."
\<close>

definition claim :: "jtag_Signal \<Rightarrow> nat \<Rightarrow> jtag_state \<Rightarrow> jtag_state" where
  "claim sig pin st =
     st\<lparr>jtag_PinUsage := set_bit pin (jtag_PinUsage st),
        jtag_Signals := (jtag_Signals st)(sig := Some pin),
        port_ops := port_ops st @
          (if sig = JTAG_SIGNAL_TDO then [SetPinDirection pin Input]
           else [SetPinDirection pin Output, DriveLevel pin False])\<rparr>"

text \<open>Modelled from the spec: "the requested pin is already claimed by a different signal".\<close>

definition claimed_by_other :: "jtag_Signal \<Rightarrow> nat \<Rightarrow> jtag_state \<Rightarrow> bool" where
  "claimed_by_other sig pin st =
     list_ex (\<lambda>other. other \<noteq> sig \<and> jtag_Signals st other = Some pin) all_signals"

text \<open>
  Modelled from the spec: Configure(signal, pin_or_unassign), with the result flag first.
  The cases are those of section 4.1, in its order: the sentinel (\<open>None\<close>) deconfigures and
  succeeds; a pin outside the valid range fails; a pin claimed by a different signal fails;
  otherwise a different old pin of the signal is deconfigured first, and the new pin is
  claimed.
\<close>

definition jtag_Cfg :: "jtag_Signal \<Rightarrow> nat option \<Rightarrow> jtag_state \<Rightarrow> bool \<times> jtag_state" where
  "jtag_Cfg sig pin_or_unassign st =
     (case pin_or_unassign of
        None \<Rightarrow> (True, deconfigure sig st)
      | Some pin \<Rightarrow>
          if jtag_pin_count \<le> pin then (False, st)
          else if claimed_by_other sig pin st then (False, st)
          else
            (let st = (case jtag_Signals st sig of
                         None \<Rightarrow> st
                       | Some old \<Rightarrow> if old \<noteq> pin then deconfigure sig st else st)
             in (True, claim sig pin st)))"

text \<open>
  The invariant of section 3 of the spec: the pins whose bit is set in \<open>jtag_PinUsage\<close> are
  exactly the pins that appear in \<open>jtag_Signals\<close>, and no pin appears there twice.
\<close>

definition used_pins :: "jtag_state \<Rightarrow> nat list" where
  "used_pins st = filter (bit (jtag_PinUsage st)) [0..<32]"

definition assigned_pins :: "jtag_state \<Rightarrow> nat list" where
  "assigned_pins st = List.map_filter (jtag_Signals st) all_signals"

definition jtag_inv :: "jtag_state \<Rightarrow> bool" where
  "jtag_inv st = (set (used_pins st) = set (assigned_pins st) \<and> distinct (assigned_pins st))"


section \<open>Properties of the TAP state engine\<close>

subsection \<open>Auxiliary facts\<close>

lemma delay_loop_closed: "delay_loop count nops = nops + (delay_count - 1 - count)"
proof (induction count nops rule: delay_loop.induct)
  case (1 count nops)
  show ?case
  proof (cases "count + 1 < delay_count")
    case True
    with 1 show ?thesis by (subst delay_loop.simps) simp
  next
    case False
    then show ?thesis by (subst delay_loop.simps) simp
  qed
qed

lemma delay_loop_start: "delay_loop 0 0 = 19999"
  by (simp add: delay_loop_closed delay_count_def)

lemma trst_reset_calls:
  "trst_reset m = m\<lparr>calls := calls m @ trst_pulse\<rparr>"
  by (simp add: trst_reset_def trst_pulse_def jtag_Set_def delay_def delay_loop_start)

lemma clock_pulses_append: "clock_pulses (xs @ ys) = clock_pulses xs + clock_pulses ys"
  by (simp add: clock_pulses_def)

lemma clock_pulses_trst_pulse: "clock_pulses trst_pulse = 0"
  by (simp add: clock_pulses_def trst_pulse_def)

lemma TAPState_tap_step: "TAPState (tap_step target m) = next_state target (TAPState m)"
  unfolding next_state_def tap_step_def
  by (cases "TAPState m")
     (simp_all add: jtag_Set_def jtag_Clock_def trst_reset_calls jtag_IsAllocated_def)

lemma next_state_simps:
  "next_state target JTAGTAP_STATE_UNKNOWN = JTAGTAP_STATE_RESET"
  "next_state target JTAGTAP_STATE_RESET = JTAGTAP_STATE_IDLE"
  "next_state target JTAGTAP_STATE_IDLE = JTAGTAP_STATE_DR_SCAN"
  "next_state target JTAGTAP_STATE_DR_SCAN =
     (if 4 \<le> state_num target \<and> state_num target \<le> 9
      then JTAGTAP_STATE_DR_CAPTURE else JTAGTAP_STATE_IR_SCAN)"
  "next_state target JTAGTAP_STATE_DR_CAPTURE =
     (if target = JTAGTAP_STATE_DR_SHIFT then JTAGTAP_STATE_DR_SHIFT else JTAGTAP_STATE_DR_EXIT1)"
  "next_state target JTAGTAP_STATE_DR_SHIFT = JTAGTAP_STATE_DR_EXIT1"
  "next_state target JTAGTAP_STATE_DR_EXIT1 =
     (if target = JTAGTAP_STATE_DR_PAUSE \<or> target = JTAGTAP_STATE_DR_EXIT2
         \<or> target = JTAGTAP_STATE_DR_SHIFT
      then JTAGTAP_STATE_DR_PAUSE else JTAGTAP_STATE_DR_UPDATE)"
  "next_state target JTAGTAP_STATE_DR_PAUSE = JTAGTAP_STATE_DR_EXIT2"
  "next_state target JTAGTAP_STATE_DR_EXIT2 =
     (if target = JTAGTAP_STATE_DR_PAUSE \<or> target = JTAGTAP_STATE_DR_EXIT1
         \<or> target = JTAGTAP_STATE_DR_SHIFT
      then JTAGTAP_STATE_DR_SHIFT else JTAGTAP_STATE_DR_UPDATE)"
  "next_state target JTAGTAP_STATE_DR_UPDATE =
     (if target = JTAGTAP_STATE_IDLE then JTAGTAP_STATE_IDLE else JTAGTAP_STATE_DR_SCAN)"
  "next_state target JTAGTAP_STATE_IR_SCAN =
     (if 11 \<le> state_num target \<and> state_num target \<le> 16
      then JTAGTAP_STATE_IR_CAPTURE else JTAGTAP_STATE_RESET)"
  "next_state target JTAGTAP_STATE_IR_CAPTURE =
     (if target = JTAGTAP_STATE_IR_SHIFT then JTAGTAP_STATE_IR_SHIFT else JTAGTAP_STATE_IR_EXIT1)"
  "next_state target JTAGTAP_STATE_IR_SHIFT = JTAGTAP_STATE_IR_EXIT1"
  "next_state target JTAGTAP_STATE_IR_EXIT1 =
     (if target = JTAGTAP_STATE_IR_PAUSE \<or> target = JTAGTAP_STATE_IR_EXIT2
         \<or> target = JTAGTAP_STATE_IR_SHIFT
      then JTAGTAP_STATE_IR_PAUSE else JTAGTAP_STATE_IR_UPDATE)"
  "next_state target JTAGTAP_STATE_IR_PAUSE = JTAGTAP_STATE_IR_EXIT2"
  "next_state target JTAGTAP_STATE_IR_EXIT2 =
     (if target = JTAGTAP_STATE_IR_PAUSE \<or> target = JTAGTAP_STATE_IR_EXIT1
         \<or> target = JTAGTAP_STATE_IR_SHIFT
      then JTAGTAP_STATE_IR_SHIFT else JTAGTAP_STATE_IR_UPDATE)"
  "next_state target JTAGTAP_STATE_IR_UPDATE =
     (if target = JTAGTAP_STATE_IDLE then JTAGTAP_STATE_IDLE else JTAGTAP_STATE_DR_SCAN)"
  by (simp_all add: next_state_def tap_step_def jtag_Set_def jtag_Clock_def jtag_IsAllocated_def)

text \<open>From every state, the walk that \<open>next_state\<close> describes meets a named target within eight hops.\<close>

lemma hops_total:
  "target \<noteq> JTAGTAP_STATE_UNKNOWN \<Longrightarrow> \<exists>n\<le>8. hops 8 target s = Some n"
  by (cases target; cases s; simp add: eval_nat_numeral next_state_simps)

lemma tap_loop_done: "TAPState m = target \<Longrightarrow> tap_loop target m = Some m"
  by (subst tap_loop.simps) simp

lemma tap_loop_step:
  "TAPState m \<noteq> target \<Longrightarrow> tap_loop target m = tap_loop target (tap_step target m)"
  by (subst tap_loop.simps) simp

text \<open>A hop count of the walk is an iteration count of the loop.\<close>

lemma tap_loop_hops:
  "hops fuel target (TAPState m) = Some n \<Longrightarrow>
     tap_loop target m = Some ((tap_step target ^^ n) m)
       \<and> TAPState ((tap_step target ^^ n) m) = target"
proof (induction fuel arbitrary: m n)
  case 0
  then show ?case by (auto simp: tap_loop_done split: if_splits)
next
  case (Suc fuel)
  show ?case
  proof (cases "TAPState m = target")
    case True
    with Suc.prems show ?thesis by (simp add: tap_loop_done)
  next
    case False
    with Suc.prems obtain k
      where k: "hops fuel target (TAPState (tap_step target m)) = Some k" "n = Suc k"
      by (auto simp: TAPState_tap_step)
    from Suc.IH [OF k(1)] False k(2) show ?thesis
      by (simp add: tap_loop_step funpow_swap1)
  qed
qed

text \<open>What one iteration does, state by state.\<close>

lemma tap_step_unknown:
  "TAPState m = JTAGTAP_STATE_UNKNOWN \<Longrightarrow>
     tap_step target m =
       m\<lparr>calls := calls m @ (if trst_allocated m then trst_pulse
                              else [Set JTAG_SIGNAL_TMS True, Clock, Clock, Clock, Clock, Clock]),
         TAPState := JTAGTAP_STATE_RESET\<rparr>"
  by (simp add: tap_step_def jtag_IsAllocated_def trst_reset_calls jtag_Set_def jtag_Clock_def)

lemma tap_step_pulse:
  "table_rule (TAPState m) target = Some (level, s') \<Longrightarrow>
     tap_step target m = m\<lparr>calls := calls m @ [Set JTAG_SIGNAL_TMS level, Clock], TAPState := s'\<rparr>"
  by (cases "TAPState m"; cases target)
     (auto simp: tap_step_def jtag_Set_def jtag_Clock_def)

lemma table_rule_defined:
  "s \<noteq> JTAGTAP_STATE_UNKNOWN \<Longrightarrow> \<exists>level s'. table_rule s target = Some (level, s')"
  by (cases s) auto

subsection \<open>The claims\<close>

text \<open>
  C1. For every named target other than Unknown and every value of the current state,
  \<open>jtagTAP_SetState target\<close> returns: after the statement before the loop, the loop runs
  \<open>n\<close> iterations for some \<open>n \<le> 8\<close> and exits, and then \<open>jtagTAP_GetState\<close> gives \<open>target\<close>.
\<close>

theorem jtagTAP_SetState_reaches_target:
  "target \<noteq> JTAGTAP_STATE_UNKNOWN \<Longrightarrow>
     \<exists>n\<le>8. jtagTAP_SetState target m = Some ((tap_step target ^^ n) (reset_shortcut target m))
        \<and> jtagTAP_GetState ((tap_step target ^^ n) (reset_shortcut target m)) = target"
proof -
  assume t: "target \<noteq> JTAGTAP_STATE_UNKNOWN"
  from hops_total [OF t] obtain n
    where n: "n \<le> 8" "hops 8 target (TAPState (reset_shortcut target m)) = Some n"
    by blast
  from tap_loop_hops [OF n(2)] t n(1) show ?thesis
    by (auto simp: jtagTAP_SetState_def jtagTAP_GetState_def)
qed

theorem jtagTAP_SetState_reaches_target_witness:
  "JTAGTAP_STATE_DR_PAUSE \<noteq> JTAGTAP_STATE_UNKNOWN \<and>
   (\<exists>n\<le>8. jtagTAP_SetState JTAGTAP_STATE_DR_PAUSE
              \<lparr>TAPState = JTAGTAP_STATE_IR_EXIT2, trst_allocated = False, calls = []\<rparr>
            = Some ((tap_step JTAGTAP_STATE_DR_PAUSE ^^ n)
                 (reset_shortcut JTAGTAP_STATE_DR_PAUSE
                    \<lparr>TAPState = JTAGTAP_STATE_IR_EXIT2, trst_allocated = False, calls = []\<rparr>))
      \<and> jtagTAP_GetState ((tap_step JTAGTAP_STATE_DR_PAUSE ^^ n)
                 (reset_shortcut JTAGTAP_STATE_DR_PAUSE
                    \<lparr>TAPState = JTAGTAP_STATE_IR_EXIT2, trst_allocated = False, calls = []\<rparr>))
          = JTAGTAP_STATE_DR_PAUSE)"
  using jtagTAP_SetState_reaches_target
    [of JTAGTAP_STATE_DR_PAUSE
        "\<lparr>TAPState = JTAGTAP_STATE_IR_EXIT2, trst_allocated = False, calls = []\<rparr>"]
  by simp

text \<open>
  C4. With the current state Unknown and TRST allocated, one call \<open>jtagTAP_SetState\<close> with
  target Reset returns; it has made exactly the calls TMS high, TRST low, the busy-wait,
  TRST high, no \<open>jtag_Clock\<close> call, and the current state is Reset.
\<close>

theorem jtagTAP_SetState_reset_from_unknown:
  "TAPState m = JTAGTAP_STATE_UNKNOWN \<Longrightarrow> trst_allocated m \<Longrightarrow>
     \<exists>m'. jtagTAP_SetState JTAGTAP_STATE_RESET m = Some m'
        \<and> calls m' = calls m @ [Set JTAG_SIGNAL_TMS True, Set JTAG_SIGNAL_TRST False,
                                  Spin (delay_count - 1), Set JTAG_SIGNAL_TRST True]
        \<and> clock_pulses (calls m') = clock_pulses (calls m)
        \<and> jtagTAP_GetState m' = JTAGTAP_STATE_RESET"
  by (simp add: jtagTAP_SetState_def reset_shortcut_def jtag_IsAllocated_def trst_reset_calls
        tap_loop_done jtagTAP_GetState_def clock_pulses_append clock_pulses_trst_pulse)
     (simp add: trst_pulse_def delay_count_def)

theorem jtagTAP_SetState_reset_from_unknown_witness:
  "\<exists>m'. jtagTAP_SetState JTAGTAP_STATE_RESET
           \<lparr>TAPState = JTAGTAP_STATE_UNKNOWN, trst_allocated = True, calls = []\<rparr> = Some m'
        \<and> calls m' = [Set JTAG_SIGNAL_TMS True, Set JTAG_SIGNAL_TRST False,
                       Spin 19999, Set JTAG_SIGNAL_TRST True]
        \<and> clock_pulses (calls m') = 0
        \<and> jtagTAP_GetState m' = JTAGTAP_STATE_RESET"
  using jtagTAP_SetState_reset_from_unknown
    [of "\<lparr>TAPState = JTAGTAP_STATE_UNKNOWN, trst_allocated = True, calls = []\<rparr>"]
  by (simp add: clock_pulses_def delay_count_def)

text \<open>
  C5, as the spec states it ("every iteration issues exactly one clock pulse"), fails for the
  iteration that starts in Unknown: with target Idle and TRST not allocated that iteration
  issues five clock pulses, and with TRST allocated it issues none.
\<close>

theorem tap_step_unknown_not_one_pulse:
  "JTAGTAP_STATE_IDLE \<noteq> JTAGTAP_STATE_UNKNOWN
   \<and> TAPState \<lparr>TAPState = JTAGTAP_STATE_UNKNOWN, trst_allocated = False, calls = []\<rparr>
        \<noteq> JTAGTAP_STATE_IDLE
   \<and> calls (tap_step JTAGTAP_STATE_IDLE
        \<lparr>TAPState = JTAGTAP_STATE_UNKNOWN, trst_allocated = False, calls = []\<rparr>)
       = [Set JTAG_SIGNAL_TMS True, Clock, Clock, Clock, Clock, Clock]
   \<and> clock_pulses (calls (tap_step JTAGTAP_STATE_IDLE
        \<lparr>TAPState = JTAGTAP_STATE_UNKNOWN, trst_allocated = False, calls = []\<rparr>)) = 5
   \<and> clock_pulses (calls (tap_step JTAGTAP_STATE_IDLE
        \<lparr>TAPState = JTAGTAP_STATE_UNKNOWN, trst_allocated = True, calls = []\<rparr>)) = 0"
  by (simp add: tap_step_unknown clock_pulses_def trst_pulse_def)

text \<open>
  C5, amended. An iteration of the transition loop that starts in a state other than Unknown
  makes exactly two calls, \<open>jtag_Set(JTAG_SIGNAL_TMS, level)\<close> and one \<open>jtag_Clock()\<close>, and
  leaves the current state at the next state, where \<open>level\<close> and the next state are those of
  the row of the spec's transition table for the current state and the target. An iteration
  that starts in Unknown ends in Reset after the TRST pulse and no clock pulse (TRST
  allocated), or after TMS high and five clock pulses (TRST not allocated).
\<close>

theorem tap_step_one_pulse_per_iteration:
  "(TAPState m \<noteq> JTAGTAP_STATE_UNKNOWN \<longrightarrow>
      (\<exists>level s'. table_rule (TAPState m) target = Some (level, s')
         \<and> tap_step target m
             = m\<lparr>calls := calls m @ [Set JTAG_SIGNAL_TMS level, Clock], TAPState := s'\<rparr>
         \<and> clock_pulses (calls (tap_step target m)) = clock_pulses (calls m) + 1))
   \<and> (TAPState m = JTAGTAP_STATE_UNKNOWN \<longrightarrow>
        tap_step target m
          = m\<lparr>calls := calls m @
                (if trst_allocated m
                 then [Set JTAG_SIGNAL_TMS True, Set JTAG_SIGNAL_TRST False,
                       Spin (delay_count - 1), Set JTAG_SIGNAL_TRST True]
                 else [Set JTAG_SIGNAL_TMS True, Clock, Clock, Clock, Clock, Clock]),
              TAPState := JTAGTAP_STATE_RESET\<rparr>)"
proof (intro conjI impI)
  assume "TAPState m \<noteq> JTAGTAP_STATE_UNKNOWN"
  then have "\<exists>level s'. table_rule (TAPState m) target = Some (level, s')"
    by (rule table_rule_defined)
  then obtain level s' where r: "table_rule (TAPState m) target = Some (level, s')"
    by blast
  from tap_step_pulse [OF r] r
  show "\<exists>level s'. table_rule (TAPState m) target = Some (level, s')
         \<and> tap_step target m
             = m\<lparr>calls := calls m @ [Set JTAG_SIGNAL_TMS level, Clock], TAPState := s'\<rparr>
         \<and> clock_pulses (calls (tap_step target m)) = clock_pulses (calls m) + 1"
    by (simp add: clock_pulses_def)
next
  assume "TAPState m = JTAGTAP_STATE_UNKNOWN"
  then show "tap_step target m
          = m\<lparr>calls := calls m @
                (if trst_allocated m
                 then [Set JTAG_SIGNAL_TMS True, Set JTAG_SIGNAL_TRST False,
                       Spin (delay_count - 1), Set JTAG_SIGNAL_TRST True]
                 else [Set JTAG_SIGNAL_TMS True, Clock, Clock, Clock, Clock, Clock]),
              TAPState := JTAGTAP_STATE_RESET\<rparr>"
    by (simp add: tap_step_unknown trst_pulse_def delay_count_def)
qed

theorem tap_step_one_pulse_per_iteration_witness:
  "TAPState \<lparr>TAPState = JTAGTAP_STATE_DR_EXIT1, trst_allocated = False, calls = []\<rparr>
      \<noteq> JTAGTAP_STATE_UNKNOWN
   \<and> tap_step JTAGTAP_STATE_DR_SHIFT
        \<lparr>TAPState = JTAGTAP_STATE_DR_EXIT1, trst_allocated = False, calls = []\<rparr>
      = \<lparr>TAPState = JTAGTAP_STATE_DR_PAUSE, trst_allocated = False,
          calls = [Set JTAG_SIGNAL_TMS False, Clock]\<rparr>
   \<and> TAPState \<lparr>TAPState = JTAGTAP_STATE_UNKNOWN, trst_allocated = True, calls = []\<rparr>
      = JTAGTAP_STATE_UNKNOWN
   \<and> tap_step JTAGTAP_STATE_DR_SHIFT
        \<lparr>TAPState = JTAGTAP_STATE_UNKNOWN, trst_allocated = True, calls = []\<rparr>
      = \<lparr>TAPState = JTAGTAP_STATE_RESET, trst_allocated = True,
          calls = [Set JTAG_SIGNAL_TMS True, Set JTAG_SIGNAL_TRST False,
                   Spin 19999, Set JTAG_SIGNAL_TRST True]\<rparr>"
  using tap_step_one_pulse_per_iteration
      [of "\<lparr>TAPState = JTAGTAP_STATE_DR_EXIT1, trst_allocated = False, calls = []\<rparr>"
          JTAGTAP_STATE_DR_SHIFT]
    tap_step_one_pulse_per_iteration
      [of "\<lparr>TAPState = JTAGTAP_STATE_UNKNOWN, trst_allocated = True, calls = []\<rparr>"
          JTAGTAP_STATE_DR_SHIFT]
  by (auto simp: delay_count_def)

text \<open>
  C6, as the spec states it ("SetState(current_state) is a no-op"), fails when the current
  state is Reset and TRST is allocated: the statement before the loop does not look at the
  current state, so the call drives TMS high and pulses TRST, and the machine it returns is
  not the machine it was given.
\<close>

theorem jtagTAP_SetState_same_state_not_noop:
  "TAPState \<lparr>TAPState = JTAGTAP_STATE_RESET, trst_allocated = True, calls = []\<rparr>
      = JTAGTAP_STATE_RESET
   \<and> jtagTAP_SetState JTAGTAP_STATE_RESET
        \<lparr>TAPState = JTAGTAP_STATE_RESET, trst_allocated = True, calls = []\<rparr>
      = Some \<lparr>TAPState = JTAGTAP_STATE_RESET, trst_allocated = True,
               calls = [Set JTAG_SIGNAL_TMS True, Set JTAG_SIGNAL_TRST False,
                        Spin 19999, Set JTAG_SIGNAL_TRST True]\<rparr>
   \<and> jtagTAP_SetState JTAGTAP_STATE_RESET
        \<lparr>TAPState = JTAGTAP_STATE_RESET, trst_allocated = True, calls = []\<rparr>
      \<noteq> Some \<lparr>TAPState = JTAGTAP_STATE_RESET, trst_allocated = True, calls = []\<rparr>"
  by (simp add: jtagTAP_SetState_def reset_shortcut_def jtag_IsAllocated_def trst_reset_calls
        tap_loop_done trst_pulse_def)

text \<open>
  C6, amended. A call \<open>jtagTAP_SetState\<close> whose target is the current state returns with the
  current state unchanged and without any \<open>jtag_Clock\<close> call. Unless the target is Reset and
  TRST is allocated, it is a no-op: it makes no hardware call and returns the machine
  unchanged. With target Reset and TRST allocated it makes exactly the four calls of the
  hardware reset (TMS high, TRST low, the busy-wait, TRST high) and changes nothing else.
\<close>

theorem jtagTAP_SetState_same_state:
  "\<exists>m'. jtagTAP_SetState (TAPState m) m = Some m'
      \<and> jtagTAP_GetState m' = TAPState m
      \<and> clock_pulses (calls m') = clock_pulses (calls m)
      \<and> calls m' = calls m @
           (if TAPState m = JTAGTAP_STATE_RESET \<and> trst_allocated m
            then [Set JTAG_SIGNAL_TMS True, Set JTAG_SIGNAL_TRST False,
                  Spin (delay_count - 1), Set JTAG_SIGNAL_TRST True]
            else [])
      \<and> m' = (if TAPState m = JTAGTAP_STATE_RESET \<and> trst_allocated m
               then m\<lparr>calls := calls m @
                      [Set JTAG_SIGNAL_TMS True, Set JTAG_SIGNAL_TRST False,
                       Spin (delay_count - 1), Set JTAG_SIGNAL_TRST True]\<rparr>
               else m)"
  by (simp add: jtagTAP_SetState_def reset_shortcut_def jtag_IsAllocated_def trst_reset_calls
        tap_loop_done jtagTAP_GetState_def clock_pulses_append clock_pulses_trst_pulse)
     (auto simp: trst_pulse_def delay_count_def clock_pulses_def)

theorem jtagTAP_SetState_same_state_witness:
  "jtagTAP_SetState JTAGTAP_STATE_RESET
       \<lparr>TAPState = JTAGTAP_STATE_RESET, trst_allocated = False, calls = [Clock]\<rparr>
     = Some \<lparr>TAPState = JTAGTAP_STATE_RESET, trst_allocated = False, calls = [Clock]\<rparr>
   \<and> jtagTAP_SetState JTAGTAP_STATE_IR_PAUSE
       \<lparr>TAPState = JTAGTAP_STATE_IR_PAUSE, trst_allocated = True, calls = [Clock]\<rparr>
     = Some \<lparr>TAPState = JTAGTAP_STATE_IR_PAUSE, trst_allocated = True, calls = [Clock]\<rparr>
   \<and> jtagTAP_SetState JTAGTAP_STATE_UNKNOWN
       \<lparr>TAPState = JTAGTAP_STATE_UNKNOWN, trst_allocated = True, calls = []\<rparr>
     = Some \<lparr>TAPState = JTAGTAP_STATE_UNKNOWN, trst_allocated = True, calls = []\<rparr>
   \<and> jtagTAP_SetState JTAGTAP_STATE_RESET
       \<lparr>TAPState = JTAGTAP_STATE_RESET, trst_allocated = True, calls = [Clock]\<rparr>
     = Some \<lparr>TAPState = JTAGTAP_STATE_RESET, trst_allocated = True,
              calls = [Clock, Set JTAG_SIGNAL_TMS True, Set JTAG_SIGNAL_TRST False,
                       Spin 19999, Set JTAG_SIGNAL_TRST True]\<rparr>"
  using jtagTAP_SetState_same_state
      [of "\<lparr>TAPState = JTAGTAP_STATE_RESET, trst_allocated = False, calls = [Clock]\<rparr>"]
    jtagTAP_SetState_same_state
      [of "\<lparr>TAPState = JTAGTAP_STATE_IR_PAUSE, trst_allocated = True, calls = [Clock]\<rparr>"]
    jtagTAP_SetState_same_state
      [of "\<lparr>TAPState = JTAGTAP_STATE_UNKNOWN, trst_allocated = True, calls = []\<rparr>"]
    jtagTAP_SetState_same_state
      [of "\<lparr>TAPState = JTAGTAP_STATE_RESET, trst_allocated = True, calls = [Clock]\<rparr>"]
  by (simp add: delay_count_def)

text \<open>
  C7. With TRST allocated, every call \<open>jtagTAP_SetState\<close> with target Reset makes the four
  calls of the hardware reset (TMS high, TRST low, the busy-wait, TRST high), whatever the
  current state is, Reset included; it makes no other call, and a second such call makes
  the four calls again.
\<close>

theorem jtagTAP_SetState_reset_always_pulses_trst:
  "trst_allocated m \<Longrightarrow>
     \<exists>m' m''. jtagTAP_SetState JTAGTAP_STATE_RESET m = Some m'
        \<and> calls m' = calls m @ [Set JTAG_SIGNAL_TMS True, Set JTAG_SIGNAL_TRST False,
                                  Spin (delay_count - 1), Set JTAG_SIGNAL_TRST True]
        \<and> TAPState m' = JTAGTAP_STATE_RESET
        \<and> jtagTAP_SetState JTAGTAP_STATE_RESET m' = Some m''
        \<and> calls m'' = calls m' @ [Set JTAG_SIGNAL_TMS True, Set JTAG_SIGNAL_TRST False,
                                    Spin (delay_count - 1), Set JTAG_SIGNAL_TRST True]"
  by (simp add: jtagTAP_SetState_def reset_shortcut_def jtag_IsAllocated_def trst_reset_calls
        tap_loop_done)
     (simp add: trst_pulse_def delay_count_def)

theorem jtagTAP_SetState_reset_always_pulses_trst_witness:
  "\<exists>m'. jtagTAP_SetState JTAGTAP_STATE_RESET
           \<lparr>TAPState = JTAGTAP_STATE_RESET, trst_allocated = True, calls = []\<rparr> = Some m'
        \<and> calls m' = [Set JTAG_SIGNAL_TMS True, Set JTAG_SIGNAL_TRST False,
                       Spin 19999, Set JTAG_SIGNAL_TRST True]"
  using jtagTAP_SetState_reset_always_pulses_trst
    [of "\<lparr>TAPState = JTAGTAP_STATE_RESET, trst_allocated = True, calls = []\<rparr>"]
  by (auto simp: delay_count_def)

text \<open>
  C8. With the current state Unknown and TRST not allocated, \<open>jtagTAP_SetState\<close> with target
  Idle returns after two iterations, Unknown to Reset and Reset to Idle: TMS high and five
  clock pulses, then TMS low and one clock pulse, six pulses in all; the current state is
  Idle.
\<close>

theorem jtagTAP_SetState_idle_from_unknown:
  "TAPState m = JTAGTAP_STATE_UNKNOWN \<Longrightarrow> \<not> trst_allocated m \<Longrightarrow>
     \<exists>m'. jtagTAP_SetState JTAGTAP_STATE_IDLE m = Some m'
        \<and> m' = tap_step JTAGTAP_STATE_IDLE (tap_step JTAGTAP_STATE_IDLE m)
        \<and> TAPState (tap_step JTAGTAP_STATE_IDLE m) = JTAGTAP_STATE_RESET
        \<and> jtagTAP_GetState m' = JTAGTAP_STATE_IDLE
        \<and> calls m' = calls m @ [Set JTAG_SIGNAL_TMS True, Clock, Clock, Clock, Clock, Clock,
                                  Set JTAG_SIGNAL_TMS False, Clock]
        \<and> clock_pulses (calls m') = clock_pulses (calls m) + 6"
  by (simp add: jtagTAP_SetState_def reset_shortcut_def jtagTAP_GetState_def
        tap_loop_step tap_loop_done TAPState_tap_step next_state_simps)
     (simp add: tap_step_def jtag_IsAllocated_def jtag_Set_def jtag_Clock_def clock_pulses_def)

theorem jtagTAP_SetState_idle_from_unknown_witness:
  "\<exists>m'. jtagTAP_SetState JTAGTAP_STATE_IDLE
           \<lparr>TAPState = JTAGTAP_STATE_UNKNOWN, trst_allocated = False, calls = []\<rparr> = Some m'
        \<and> jtagTAP_GetState m' = JTAGTAP_STATE_IDLE
        \<and> calls m' = [Set JTAG_SIGNAL_TMS True, Clock, Clock, Clock, Clock, Clock,
                       Set JTAG_SIGNAL_TMS False, Clock]
        \<and> clock_pulses (calls m') = 6"
  using jtagTAP_SetState_idle_from_unknown
    [of "\<lparr>TAPState = JTAGTAP_STATE_UNKNOWN, trst_allocated = False, calls = []\<rparr>"]
  by (auto simp: clock_pulses_def)

text \<open>
  C9. With the current state Idle, \<open>jtagTAP_SetState\<close> with target IR-Shift returns after four
  iterations, through DR-Scan, IR-Scan and IR-Capture; the calls are TMS 1, 1, 0, 0, each
  followed by one clock pulse, and the current state is IR-Shift.
\<close>

theorem jtagTAP_SetState_ir_shift_from_idle:
  "TAPState m = JTAGTAP_STATE_IDLE \<Longrightarrow>
     \<exists>m1 m2 m3 m4.
          m1 = tap_step JTAGTAP_STATE_IR_SHIFT m \<and> TAPState m1 = JTAGTAP_STATE_DR_SCAN
        \<and> m2 = tap_step JTAGTAP_STATE_IR_SHIFT m1 \<and> TAPState m2 = JTAGTAP_STATE_IR_SCAN
        \<and> m3 = tap_step JTAGTAP_STATE_IR_SHIFT m2 \<and> TAPState m3 = JTAGTAP_STATE_IR_CAPTURE
        \<and> m4 = tap_step JTAGTAP_STATE_IR_SHIFT m3 \<and> jtagTAP_GetState m4 = JTAGTAP_STATE_IR_SHIFT
        \<and> jtagTAP_SetState JTAGTAP_STATE_IR_SHIFT m = Some m4
        \<and> calls m4 = calls m @ [Set JTAG_SIGNAL_TMS True, Clock, Set JTAG_SIGNAL_TMS True, Clock,
                                  Set JTAG_SIGNAL_TMS False, Clock, Set JTAG_SIGNAL_TMS False, Clock]"
  by (simp add: jtagTAP_SetState_def reset_shortcut_def jtagTAP_GetState_def
        tap_loop_step tap_loop_done TAPState_tap_step next_state_simps)
     (simp add: tap_step_def jtag_Set_def jtag_Clock_def)

theorem jtagTAP_SetState_ir_shift_from_idle_witness:
  "\<exists>m4. jtagTAP_SetState JTAGTAP_STATE_IR_SHIFT
           \<lparr>TAPState = JTAGTAP_STATE_IDLE, trst_allocated = True, calls = []\<rparr> = Some m4
        \<and> jtagTAP_GetState m4 = JTAGTAP_STATE_IR_SHIFT
        \<and> calls m4 = [Set JTAG_SIGNAL_TMS True, Clock, Set JTAG_SIGNAL_TMS True, Clock,
                       Set JTAG_SIGNAL_TMS False, Clock, Set JTAG_SIGNAL_TMS False, Clock]"
  using jtagTAP_SetState_ir_shift_from_idle
    [of "\<lparr>TAPState = JTAGTAP_STATE_IDLE, trst_allocated = True, calls = []\<rparr>"]
  by auto

text \<open>
  C10. The iteration that starts in IR-Scan: for a target among IR-Capture, IR-Shift,
  IR-Exit1, IR-Pause, IR-Exit2 and IR-Update it sets TMS low, issues one clock pulse and
  moves to IR-Capture; for every other target it sets TMS high, issues one clock pulse and
  moves to Reset.
\<close>

theorem tap_step_ir_scan:
  "TAPState m = JTAGTAP_STATE_IR_SCAN \<Longrightarrow>
     tap_step target m =
       (if target \<in> {JTAGTAP_STATE_IR_CAPTURE, JTAGTAP_STATE_IR_SHIFT, JTAGTAP_STATE_IR_EXIT1,
                      JTAGTAP_STATE_IR_PAUSE, JTAGTAP_STATE_IR_EXIT2, JTAGTAP_STATE_IR_UPDATE}
        then m\<lparr>calls := calls m @ [Set JTAG_SIGNAL_TMS False, Clock],
               TAPState := JTAGTAP_STATE_IR_CAPTURE\<rparr>
        else m\<lparr>calls := calls m @ [Set JTAG_SIGNAL_TMS True, Clock],
               TAPState := JTAGTAP_STATE_RESET\<rparr>)"
  by (cases target) (simp_all add: tap_step_def jtag_Set_def jtag_Clock_def)

theorem tap_step_ir_scan_witness:
  "tap_step JTAGTAP_STATE_DR_SHIFT
       \<lparr>TAPState = JTAGTAP_STATE_IR_SCAN, trst_allocated = False, calls = []\<rparr>
     = \<lparr>TAPState = JTAGTAP_STATE_RESET, trst_allocated = False,
         calls = [Set JTAG_SIGNAL_TMS True, Clock]\<rparr>
   \<and> tap_step JTAGTAP_STATE_IR_PAUSE
       \<lparr>TAPState = JTAGTAP_STATE_IR_SCAN, trst_allocated = False, calls = []\<rparr>
     = \<lparr>TAPState = JTAGTAP_STATE_IR_CAPTURE, trst_allocated = False,
         calls = [Set JTAG_SIGNAL_TMS False, Clock]\<rparr>"
  using tap_step_ir_scan
      [of "\<lparr>TAPState = JTAGTAP_STATE_IR_SCAN, trst_allocated = False, calls = []\<rparr>"
          JTAGTAP_STATE_DR_SHIFT]
    tap_step_ir_scan
      [of "\<lparr>TAPState = JTAGTAP_STATE_IR_SCAN, trst_allocated = False, calls = []\<rparr>"
          JTAGTAP_STATE_IR_PAUSE]
  by simp


section \<open>Properties of the signal/pin layer\<close>

lemma set_all_signals: "set all_signals = UNIV"
proof -
  have "s \<in> set all_signals" for s
    by (cases s) (simp_all add: all_signals_def)
  then show ?thesis by blast
qed

lemma distinct_all_signals: "distinct all_signals"
  by (simp add: all_signals_def)

lemma set_used_pins: "set (used_pins st) = {p. bit (jtag_PinUsage st) p}"
  by (auto simp: used_pins_def dest: bit_imp_le_length)

lemma set_map_filter_eq: "set (List.map_filter f xs) = {y. \<exists>x\<in>set xs. f x = Some y}"
  by (induction xs) (auto split: option.splits)

lemma set_assigned_pins: "set (assigned_pins st) = {p. \<exists>s. jtag_Signals st s = Some p}"
  by (simp add: assigned_pins_def set_map_filter_eq set_all_signals)

lemma distinct_map_filter_iff:
  "distinct xs \<Longrightarrow>
     distinct (List.map_filter f xs)
       \<longleftrightarrow> (\<forall>x\<in>set xs. \<forall>y\<in>set xs. \<forall>v. f x = Some v \<and> f y = Some v \<longrightarrow> x = y)"
proof (induction xs)
  case Nil
  then show ?case by simp
next
  case (Cons a xs)
  then show ?case
    by (cases "f a") (auto simp: set_map_filter_eq)
qed

text \<open>The invariant, without the lists.\<close>

lemma jtag_inv_iff:
  "jtag_inv st \<longleftrightarrow>
     (\<forall>p. bit (jtag_PinUsage st) p \<longleftrightarrow> (\<exists>s. jtag_Signals st s = Some p))
     \<and> (\<forall>s s' p. jtag_Signals st s = Some p \<and> jtag_Signals st s' = Some p \<longrightarrow> s = s')"
proof -
  have "distinct (assigned_pins st)
      \<longleftrightarrow> (\<forall>s s' p. jtag_Signals st s = Some p \<and> jtag_Signals st s' = Some p \<longrightarrow> s = s')"
    unfolding assigned_pins_def
    by (simp add: distinct_map_filter_iff [OF distinct_all_signals] set_all_signals)
  moreover have "set (used_pins st) = set (assigned_pins st)
      \<longleftrightarrow> (\<forall>p. bit (jtag_PinUsage st) p \<longleftrightarrow> (\<exists>s. jtag_Signals st s = Some p))"
    by (simp add: set_used_pins set_assigned_pins set_eq_iff)
  ultimately show ?thesis by (simp add: jtag_inv_def)
qed

lemma bit_0x0F: "bit (0x0F :: 32 word) p \<longleftrightarrow> p < 4"
proof -
  have m: "bit (mask 4 :: 32 word) p \<longleftrightarrow> p < 4"
    by (simp only: bit_mask_iff) auto
  have "(mask 4 :: 32 word) = 0x0F" by (simp add: mask_eq_exp_minus_1)
  with m show ?thesis by (simp only:)
qed

lemma jtag_inv_Init: "jtag_inv (jtag_Init st)"
proof -
  have "(\<exists>s. jtag_Signals (jtag_Init st) s = Some p) \<longleftrightarrow> p < 4" for p
  proof
    assume "\<exists>s. jtag_Signals (jtag_Init st) s = Some p"
    then obtain s where "jtag_Signals (jtag_Init st) s = Some p" ..
    then show "p < 4" by (cases s) (auto simp: jtag_Init_def)
  next
    assume "p < 4"
    then consider "p = 0" | "p = 1" | "p = 2" | "p = 3" by linarith
    then show "\<exists>s. jtag_Signals (jtag_Init st) s = Some p"
    proof cases
      case 1 then have "jtag_Signals (jtag_Init st) JTAG_SIGNAL_TCK = Some p"
        by (simp add: jtag_Init_def)
      then show ?thesis ..
    next
      case 2 then have "jtag_Signals (jtag_Init st) JTAG_SIGNAL_TMS = Some p"
        by (simp add: jtag_Init_def)
      then show ?thesis ..
    next
      case 3 then have "jtag_Signals (jtag_Init st) JTAG_SIGNAL_TDI = Some p"
        by (simp add: jtag_Init_def)
      then show ?thesis ..
    next
      case 4 then have "jtag_Signals (jtag_Init st) JTAG_SIGNAL_TDO = Some p"
        by (simp add: jtag_Init_def)
      then show ?thesis ..
    qed
  qed
  moreover have "jtag_PinUsage (jtag_Init st) = 0x0F"
    by (simp add: jtag_Init_def)
  then have "bit (jtag_PinUsage (jtag_Init st)) p \<longleftrightarrow> p < 4" for p
    by (simp only: bit_0x0F)
  moreover have "s = s'"
    if "jtag_Signals (jtag_Init st) s = Some p" "jtag_Signals (jtag_Init st) s' = Some p"
    for s s' p
    using that by (cases s; cases s') (simp_all add: jtag_Init_def)
  ultimately show ?thesis
    unfolding jtag_inv_iff by blast
qed

lemma jtag_inv_deconfigure: "jtag_inv st \<Longrightarrow> jtag_inv (deconfigure sig st)"
proof (cases "jtag_Signals st sig")
  case None
  assume "jtag_inv st"
  with None show ?thesis by (simp add: deconfigure_def)
next
  case (Some old)
  assume inv: "jtag_inv st"
  from inv have bits: "bit (jtag_PinUsage st) p \<longleftrightarrow> (\<exists>s. jtag_Signals st s = Some p)" for p
    by (simp add: jtag_inv_iff)
  from inv have inj: "jtag_Signals st s = Some p \<Longrightarrow> jtag_Signals st s' = Some p \<Longrightarrow> s = s'"
    for s s' p
    unfolding jtag_inv_iff by blast
  have sigs: "jtag_Signals (deconfigure sig st) = (jtag_Signals st)(sig := None)"
    and usage: "jtag_PinUsage (deconfigure sig st) = unset_bit old (jtag_PinUsage st)"
    using Some by (simp_all add: deconfigure_def)
  have "bit (unset_bit old (jtag_PinUsage st)) p
      \<longleftrightarrow> (\<exists>s. ((jtag_Signals st)(sig := None)) s = Some p)" for p
  proof
    assume "bit (unset_bit old (jtag_PinUsage st)) p"
    then have "bit (jtag_PinUsage st) p" "p \<noteq> old"
      by (auto simp: bit_unset_bit_iff)
    with bits obtain s where s: "jtag_Signals st s = Some p" by blast
    with Some \<open>p \<noteq> old\<close> have "s \<noteq> sig" by auto
    with s show "\<exists>s. ((jtag_Signals st)(sig := None)) s = Some p" by auto
  next
    assume "\<exists>s. ((jtag_Signals st)(sig := None)) s = Some p"
    then obtain s where s: "s \<noteq> sig" "jtag_Signals st s = Some p"
      by (auto split: if_splits)
    with inj [OF s(2), of sig] Some have "p \<noteq> old" by auto
    moreover from s bits have "bit (jtag_PinUsage st) p" by blast
    ultimately show "bit (unset_bit old (jtag_PinUsage st)) p"
      by (simp add: bit_unset_bit_iff)
  qed
  moreover have "s = s'"
    if "((jtag_Signals st)(sig := None)) s = Some p" "((jtag_Signals st)(sig := None)) s' = Some p"
    for s s' p
    using that inj [of s p s'] by (auto split: if_splits)
  ultimately show ?thesis
    unfolding jtag_inv_iff sigs usage by blast
qed

lemma jtag_inv_claim:
  assumes inv: "jtag_inv st"
    and valid: "pin < jtag_pin_count"
    and free: "\<not> claimed_by_other sig pin st"
    and own: "jtag_Signals st sig = None \<or> jtag_Signals st sig = Some pin"
  shows "jtag_inv (claim sig pin st)"
proof -
  from inv have bits: "bit (jtag_PinUsage st) p \<longleftrightarrow> (\<exists>s. jtag_Signals st s = Some p)" for p
    by (simp add: jtag_inv_iff)
  from inv have inj: "jtag_Signals st s = Some p \<Longrightarrow> jtag_Signals st s' = Some p \<Longrightarrow> s = s'"
    for s s' p
    unfolding jtag_inv_iff by blast
  from free have others: "jtag_Signals st s \<noteq> Some pin" if "s \<noteq> sig" for s
    using that by (auto simp: claimed_by_other_def list_ex_iff set_all_signals)
  have sigs: "jtag_Signals (claim sig pin st) = (jtag_Signals st)(sig := Some pin)"
    and usage: "jtag_PinUsage (claim sig pin st) = set_bit pin (jtag_PinUsage st)"
    by (simp_all add: claim_def)
  from valid have "pin < 32" by (simp add: jtag_pin_count_def)
  then have set: "bit (set_bit pin (jtag_PinUsage st)) p \<longleftrightarrow> bit (jtag_PinUsage st) p \<or> p = pin"
    for p
    by (auto simp: bit_set_bit_iff)
  have "bit (set_bit pin (jtag_PinUsage st)) p
      \<longleftrightarrow> (\<exists>s. ((jtag_Signals st)(sig := Some pin)) s = Some p)" for p
  proof
    assume "bit (set_bit pin (jtag_PinUsage st)) p"
    then consider "p = pin" | "p \<noteq> pin" "bit (jtag_PinUsage st) p" by (auto simp: set)
    then show "\<exists>s. ((jtag_Signals st)(sig := Some pin)) s = Some p"
    proof cases
      case 1
      then have "((jtag_Signals st)(sig := Some pin)) sig = Some p" by simp
      then show ?thesis ..
    next
      case 2
      with bits obtain s where s: "jtag_Signals st s = Some p" by blast
      with own 2 have "s \<noteq> sig" by auto
      with s have "((jtag_Signals st)(sig := Some pin)) s = Some p" by simp
      then show ?thesis ..
    qed
  next
    assume "\<exists>s. ((jtag_Signals st)(sig := Some pin)) s = Some p"
    then have "p = pin \<or> (\<exists>s. jtag_Signals st s = Some p)"
      by (auto split: if_splits)
    with bits show "bit (set_bit pin (jtag_PinUsage st)) p"
      by (auto simp: set)
  qed
  moreover have "s = s'"
    if "((jtag_Signals st)(sig := Some pin)) s = Some p"
      "((jtag_Signals st)(sig := Some pin)) s' = Some p"
    for s s' p
  proof (cases "s = sig")
    case True
    with that(1) have "p = pin" by simp
    with that(2) others [of s'] have "s' = sig" by (auto split: if_splits)
    with True show ?thesis by simp
  next
    case False
    with that(1) have s: "jtag_Signals st s = Some p" by simp
    with others [OF False] have "p \<noteq> pin" by auto
    with that(2) have "jtag_Signals st s' = Some p" by (auto split: if_splits)
    with s show ?thesis by (rule inj)
  qed
  ultimately show ?thesis
    unfolding jtag_inv_iff sigs usage by blast
qed

lemma claimed_by_other_iff:
  "claimed_by_other sig pin st \<longleftrightarrow> (\<exists>other. other \<noteq> sig \<and> jtag_Signals st other = Some pin)"
  by (simp add: claimed_by_other_def list_ex_iff set_all_signals)

lemma claimed_by_other_deconfigure:
  "claimed_by_other sig pin (deconfigure sig st) = claimed_by_other sig pin st"
  by (auto simp: claimed_by_other_iff deconfigure_def split: option.splits)

lemma deconfigure_own: "jtag_Signals (deconfigure sig st) sig = None"
  by (simp add: deconfigure_def split: option.splits)

lemma jtag_inv_Cfg: "jtag_inv st \<Longrightarrow> jtag_inv (snd (jtag_Cfg sig pin_or_unassign st))"
proof (cases pin_or_unassign)
  case None
  assume "jtag_inv st"
  with None show ?thesis by (simp add: jtag_Cfg_def jtag_inv_deconfigure)
next
  case (Some pin)
  assume inv: "jtag_inv st"
  show ?thesis
  proof (cases "jtag_pin_count \<le> pin \<or> claimed_by_other sig pin st")
    case True
    with Some inv show ?thesis by (auto simp: jtag_Cfg_def)
  next
    case False
    define st1 where
      "st1 = (case jtag_Signals st sig of
                None \<Rightarrow> st
              | Some old \<Rightarrow> if old \<noteq> pin then deconfigure sig st else st)"
    from False Some have res: "snd (jtag_Cfg sig pin_or_unassign st) = claim sig pin st1"
      by (simp add: jtag_Cfg_def st1_def)
    from inv have "jtag_inv st1"
      by (simp add: st1_def jtag_inv_deconfigure split: option.splits)
    moreover from False have "pin < jtag_pin_count" by simp
    moreover from False have "\<not> claimed_by_other sig pin st1"
      by (simp add: st1_def claimed_by_other_deconfigure split: option.splits)
    moreover have "jtag_Signals st1 sig = None \<or> jtag_Signals st1 sig = Some pin"
      by (simp add: st1_def deconfigure_own split: option.splits)
    ultimately show ?thesis
      unfolding res by (rule jtag_inv_claim)
  qed
qed

subsection \<open>The scenarios of tjtag.c, replayed on the model\<close>

text \<open>
  \<open>jtag_TestInitSignalAlloc\<close>: from variables filled with \<open>0xABCD1234\<close>, \<open>jtag_Init\<close> puts
  TCK, TMS, TDI, TDO on pins 0 to 3, leaves TRST unallocated and sets \<open>jtag_PinUsage\<close> to
  \<open>0x0F\<close>.
\<close>

lemma scenario_TestInitSignalAlloc:
  "map (jtag_Signals (jtag_Init
         \<lparr>jtag_Signals = (\<lambda>sig. Some 0xABCD1234), jtag_PinUsage = 0xABCD1234,
           port_ops = []\<rparr>)) all_signals
     = [Some 0, Some 1, Some 2, Some 3, None]
   \<and> jtag_PinUsage (jtag_Init
         \<lparr>jtag_Signals = (\<lambda>sig. Some 0xABCD1234), jtag_PinUsage = 0xABCD1234,
           port_ops = []\<rparr>) = 0x0F"
  by (simp add: jtag_Init_def all_signals_def)

text \<open>
  \<open>jtag_TestSignalConfigSetInvalid\<close>: after \<open>jtag_Init\<close> and the release of TMS, configuring
  TMS on pin 22 fails, \<open>jtag_PinUsage\<close> is \<open>0x0D\<close> and TMS is not allocated; after TMS is put on
  pin 7, pin 22 fails again and TMS stays on pin 7.
\<close>

lemma scenario_TestSignalConfigSetInvalid:
  "(let st0 = jtag_Init \<lparr>jtag_Signals = (\<lambda>sig. None), jtag_PinUsage = 0, port_ops = []\<rparr>;
        st1 = snd (jtag_Cfg JTAG_SIGNAL_TMS None st0);
        (val, st2) = jtag_Cfg JTAG_SIGNAL_TMS (Some 22) st1;
        st3 = snd (jtag_Cfg JTAG_SIGNAL_TMS (Some 7) st2);
        (val', st4) = jtag_Cfg JTAG_SIGNAL_TMS (Some 22) st3
    in \<not> val \<and> jtag_PinUsage st2 = 0x0D \<and> jtag_Signals st2 JTAG_SIGNAL_TMS = None
       \<and> \<not> val' \<and> jtag_PinUsage st4 = jtag_PinUsage st3
       \<and> port_ops st4 = port_ops st3 \<and> jtag_Signals st4 JTAG_SIGNAL_TMS = Some 7)"
  by code_simp

text \<open>
  \<open>jtag_TestSignalConfigAlreadySetPin\<close>: with TCK on pin 5, configuring TMS on pin 5 fails
  and changes nothing.
\<close>

lemma scenario_TestSignalConfigAlreadySetPin:
  "(let st0 = \<lparr>jtag_Signals = (\<lambda>sig. None), jtag_PinUsage = 0, port_ops = []\<rparr>;
        st1 = snd (jtag_Cfg JTAG_SIGNAL_TCK (Some 5) st0);
        (val, st2) = jtag_Cfg JTAG_SIGNAL_TMS (Some 5) st1
    in \<not> val \<and> jtag_PinUsage st2 = jtag_PinUsage st1 \<and> port_ops st2 = port_ops st1
       \<and> jtag_Signals st2 JTAG_SIGNAL_TMS = None \<and> jtag_Signals st2 JTAG_SIGNAL_TCK = Some 5)"
  by code_simp

text \<open>
  \<open>jtag_TestSignalConfigAlreadySetSig\<close>: with TCK on pin 7, configuring TCK on pin 5
  succeeds, releases pin 7 (driven low, input) and claims pin 5 (output).
\<close>

lemma scenario_TestSignalConfigAlreadySetSig:
  "(let st0 = \<lparr>jtag_Signals = (\<lambda>sig. None), jtag_PinUsage = 0, port_ops = []\<rparr>;
        st1 = snd (jtag_Cfg JTAG_SIGNAL_TCK (Some 7) st0);
        (val, st2) = jtag_Cfg JTAG_SIGNAL_TCK (Some 5) st1
    in val \<and> \<not> bit (jtag_PinUsage st2) 7 \<and> bit (jtag_PinUsage st2) 5
       \<and> jtag_Signals st2 JTAG_SIGNAL_TCK = Some 5
       \<and> port_ops st2 = port_ops st1 @
            [DriveLevel 7 False, SetPinDirection 7 Input,
             SetPinDirection 5 Output, DriveLevel 5 False])"
  by code_simp

subsection \<open>The claims\<close>

text \<open>
  C2. A failing \<open>jtag_Cfg\<close> changes nothing. For every signal and every requested pin: if
  the pin is outside the valid range, or is claimed by a different signal, the call returns
  false and the state it returns (the usage bitset, the assignment of every signal and the
  log of hardware operations) is the state before the call; and whenever the call returns
  false, the state is the state before the call.
\<close>

theorem jtag_Cfg_failure_leaves_state:
  "(jtag_pin_count \<le> pin \<or> (\<exists>other. other \<noteq> sig \<and> jtag_Signals st other = Some pin)
      \<longrightarrow> jtag_Cfg sig (Some pin) st = (False, st))
   \<and> (\<not> fst (jtag_Cfg sig pin_or_unassign st) \<longrightarrow> snd (jtag_Cfg sig pin_or_unassign st) = st)"
  by (auto simp: jtag_Cfg_def claimed_by_other_iff split: option.splits)

theorem jtag_Cfg_failure_leaves_state_witness:
  "jtag_Cfg JTAG_SIGNAL_TMS (Some 22)
       \<lparr>jtag_Signals = (\<lambda>sig. None)(JTAG_SIGNAL_TMS := Some 7), jtag_PinUsage = 0x80,
         port_ops = []\<rparr>
     = (False, \<lparr>jtag_Signals = (\<lambda>sig. None)(JTAG_SIGNAL_TMS := Some 7), jtag_PinUsage = 0x80,
                port_ops = []\<rparr>)
   \<and> jtag_Cfg JTAG_SIGNAL_TMS (Some 5)
       \<lparr>jtag_Signals = (\<lambda>sig. None)(JTAG_SIGNAL_TCK := Some 5), jtag_PinUsage = 0x20,
         port_ops = []\<rparr>
     = (False, \<lparr>jtag_Signals = (\<lambda>sig. None)(JTAG_SIGNAL_TCK := Some 5), jtag_PinUsage = 0x20,
                port_ops = []\<rparr>)"
proof -
  have invalid: "jtag_pin_count \<le> 22"
    by (simp add: jtag_pin_count_def)
  have taken: "\<exists>other. other \<noteq> JTAG_SIGNAL_TMS
      \<and> jtag_Signals \<lparr>jtag_Signals = (\<lambda>sig. None)(JTAG_SIGNAL_TCK := Some 5),
            jtag_PinUsage = 0x20, port_ops = []\<rparr> other = Some 5"
    by (rule exI [of _ JTAG_SIGNAL_TCK]) simp
  from invalid taken
    jtag_Cfg_failure_leaves_state
      [of 22 JTAG_SIGNAL_TMS
          "\<lparr>jtag_Signals = (\<lambda>sig. None)(JTAG_SIGNAL_TMS := Some 7), jtag_PinUsage = 0x80,
            port_ops = []\<rparr>"]
    jtag_Cfg_failure_leaves_state
      [of 5 JTAG_SIGNAL_TMS
          "\<lparr>jtag_Signals = (\<lambda>sig. None)(JTAG_SIGNAL_TCK := Some 5), jtag_PinUsage = 0x20,
            port_ops = []\<rparr>"]
  show ?thesis by blast
qed

text \<open>
  C3. The invariant of the signal/pin state (the bits set in \<open>jtag_PinUsage\<close> are exactly
  the pins that appear in \<open>jtag_Signals\<close>, and no pin is assigned to two signals) holds
  after \<open>jtag_Init\<close>, from any state, and every \<open>jtag_Cfg\<close> call, succeeding or failing,
  preserves it.
\<close>

theorem jtag_inv_established_and_preserved:
  "jtag_inv (jtag_Init st0)
   \<and> (jtag_inv st \<longrightarrow> jtag_inv (snd (jtag_Cfg sig pin_or_unassign st)))"
  by (simp add: jtag_inv_Init jtag_inv_Cfg)

theorem jtag_inv_established_and_preserved_witness:
  "jtag_inv (jtag_Init
        \<lparr>jtag_Signals = (\<lambda>sig. Some 0xABCD1234), jtag_PinUsage = 0xABCD1234,
          port_ops = []\<rparr>)
   \<and> jtag_inv
        \<lparr>jtag_Signals = (\<lambda>sig. None)(JTAG_SIGNAL_TCK := Some 5, JTAG_SIGNAL_TDO := Some 9),
          jtag_PinUsage = 0x220, port_ops = []\<rparr>
   \<and> jtag_inv (snd (jtag_Cfg JTAG_SIGNAL_TCK (Some 7)
        \<lparr>jtag_Signals = (\<lambda>sig. None)(JTAG_SIGNAL_TCK := Some 5, JTAG_SIGNAL_TDO := Some 9),
          jtag_PinUsage = 0x220, port_ops = []\<rparr>))
   \<and> jtag_inv (snd (jtag_Cfg JTAG_SIGNAL_TCK (Some 9)
        \<lparr>jtag_Signals = (\<lambda>sig. None)(JTAG_SIGNAL_TCK := Some 5, JTAG_SIGNAL_TDO := Some 9),
          jtag_PinUsage = 0x220, port_ops = []\<rparr>))"
proof -
  have start: "jtag_inv
        \<lparr>jtag_Signals = (\<lambda>sig. None)(JTAG_SIGNAL_TCK := Some 5, JTAG_SIGNAL_TDO := Some 9),
          jtag_PinUsage = 0x220, port_ops = []\<rparr>"
    by code_simp
  from start
    jtag_inv_established_and_preserved
      [of "\<lparr>jtag_Signals = (\<lambda>sig. Some 0xABCD1234), jtag_PinUsage = 0xABCD1234,
          port_ops = []\<rparr>"
          "\<lparr>jtag_Signals = (\<lambda>sig. None)(JTAG_SIGNAL_TCK := Some 5, JTAG_SIGNAL_TDO := Some 9),
          jtag_PinUsage = 0x220, port_ops = []\<rparr>"
          JTAG_SIGNAL_TCK "Some 7"]
    jtag_inv_established_and_preserved
      [of "\<lparr>jtag_Signals = (\<lambda>sig. Some 0xABCD1234), jtag_PinUsage = 0xABCD1234,
          port_ops = []\<rparr>"
          "\<lparr>jtag_Signals = (\<lambda>sig. None)(JTAG_SIGNAL_TCK := Some 5, JTAG_SIGNAL_TDO := Some 9),
          jtag_PinUsage = 0x220, port_ops = []\<rparr>"
          JTAG_SIGNAL_TCK "Some 9"]
  show ?thesis by blast
qed


end
